theory Spec2Isabelle
  imports Complex_Main
begin

section \<open>The board and its surroundings\<close>

text \<open>
  The program of \<^verbatim>\<open>lib/pomodoro.py\<close> polls a monotonic clock, two buttons and a
  slide switch, and drives ten pixels and a speaker. Python's numbers (durations in
  minutes and seconds, clock readings) are modelled by \<^typ>\<open>real\<close>: comparisons and
  arithmetic are the ideal ones, without the rounding of a machine float. Pixel indices
  and colour components are Python integers, hence \<^typ>\<open>int\<close>.
\<close>

type_synonym colour = "int \<times> int \<times> int"

datatype error = ValueError | KeyError | AttributeError | IndexError | TypeError

text \<open>
  Everything the program reads from outside is a stream: the \<open>n\<close>-th call of
  \<^verbatim>\<open>monotonic()\<close> returns \<open>clock n\<close>, the \<open>n\<close>-th read of \<^verbatim>\<open>cpx.button_a\<close>
  returns \<open>raw_a n\<close>, and so on. No relation between the streams is assumed.
\<close>

record env =
  clock :: "nat \<Rightarrow> real"
  raw_a :: "nat \<Rightarrow> bool"
  raw_b :: "nat \<Rightarrow> bool"
  raw_switch :: "nat \<Rightarrow> bool"

text \<open>What the program does to the outside, in the order it does it.\<close>

datatype event =
    Fill "colour list"
  | Pixel int colour
  | Sleep real
  | Tone int real

text \<open>
  The object \<^verbatim>\<open>cpx\<close> (class \<^verbatim>\<open>Express\<close>): its three attributes and the pixel
  buffer, together with the position reached in each input stream and the effects
  emitted so far.
\<close>

record express =
  pixels :: "colour list"
  last_button_a :: real
  last_button_b :: real
  sensitivity :: real
  n_clock :: nat
  n_a :: nat
  n_b :: nat
  n_switch :: nat
  effects :: "event list"

definition monotonic :: "env \<Rightarrow> express \<Rightarrow> real \<times> express" where
  "monotonic e c = (clock e (n_clock c), c\<lparr>n_clock := Suc (n_clock c)\<rparr>)"

definition button_a :: "env \<Rightarrow> express \<Rightarrow> bool \<times> express" where
  "button_a e c = (raw_a e (n_a c), c\<lparr>n_a := Suc (n_a c)\<rparr>)"

definition button_b :: "env \<Rightarrow> express \<Rightarrow> bool \<times> express" where
  "button_b e c = (raw_b e (n_b c), c\<lparr>n_b := Suc (n_b c)\<rparr>)"

definition switch :: "env \<Rightarrow> express \<Rightarrow> bool \<times> express" where
  "switch e c = (raw_switch e (n_switch c), c\<lparr>n_switch := Suc (n_switch c)\<rparr>)"

definition sleep :: "real \<Rightarrow> express \<Rightarrow> express" where
  "sleep d c = c\<lparr>effects := effects c @ [Sleep d]\<rparr>"

definition play_tone :: "int \<Rightarrow> real \<Rightarrow> express \<Rightarrow> express" where
  "play_tone f d c = c\<lparr>effects := effects c @ [Tone f d]\<rparr>"

text \<open>\<^verbatim>\<open>cpx.pixels[:] = xs\<close>\<close>

definition set_pixels :: "colour list \<Rightarrow> express \<Rightarrow> express" where
  "set_pixels xs c = c\<lparr>pixels := xs, effects := effects c @ [Fill xs]\<rparr>"

text \<open>
  \<^verbatim>\<open>cpx.pixels[i] = col\<close> on the ring of ten pixels: a negative index counts from
  the end, and an index outside \<open>-10 .. 9\<close> raises IndexError (the result \<open>None\<close>).
\<close>

definition set_pixel :: "int \<Rightarrow> colour \<Rightarrow> express \<Rightarrow> express option" where
  "set_pixel i col c =
     (let j = (if i < 0 then i + 10 else i)
      in if 0 \<le> j \<and> j < 10
         then Some (c\<lparr>pixels := (pixels c)[nat j := col], effects := effects c @ [Pixel j col]\<rparr>)
         else None)"

text \<open>
  \<^verbatim>\<open>Express.__init__\<close>, run once by \<^verbatim>\<open>cpx = Express()\<close>: the board starts
  dark, and both timestamps are clock readings.
\<close>

definition power_on :: express where
  "power_on = \<lparr>pixels = replicate 10 (0, 0, 0), last_button_a = 0, last_button_b = 0,
     sensitivity = 0, n_clock = 0, n_a = 0, n_b = 0, n_switch = 0, effects = []\<rparr>"

definition express_init :: "env \<Rightarrow> express" where
  "express_init e =
     (let (t1, c1) = monotonic e power_on;
          (t2, c2) = monotonic e c1
      in c2\<lparr>last_button_a := t1, last_button_b := t2, sensitivity := 0.25\<rparr>)"

section \<open>Input Debouncer\<close>

text \<open>
  The properties \<^verbatim>\<open>single_press_a\<close> and \<^verbatim>\<open>single_press_b\<close>. The clock is
  read once for the comparison and once more for the new timestamp.
\<close>

definition single_press_a :: "env \<Rightarrow> express \<Rightarrow> bool \<times> express" where
  "single_press_a e c =
     (let (held, c1) = button_a e c in
      if \<not> held then (False, c1)
      else
        let (now, c2) = monotonic e c1 in
        if now - last_button_a c2 > sensitivity c2
        then (let (t, c3) = monotonic e c2 in (True, c3\<lparr>last_button_a := t\<rparr>))
        else (False, c2))"

definition single_press_b :: "env \<Rightarrow> express \<Rightarrow> bool \<times> express" where
  "single_press_b e c =
     (let (held, c1) = button_b e c in
      if \<not> held then (False, c1)
      else
        let (now, c2) = monotonic e c1 in
        if now - last_button_b c2 > sensitivity c2
        then (let (t, c3) = monotonic e c2 in (True, c3\<lparr>last_button_b := t\<rparr>))
        else (False, c2))"

section \<open>The timer object\<close>

text \<open>
  Class \<^verbatim>\<open>Pomodoro\<close>. The private attributes \<^verbatim>\<open>_work_duration\<close>,
  \<^verbatim>\<open>_short_break\<close> and \<^verbatim>\<open>_long_break\<close> hold seconds; they are the fields
  \<open>priv_\<dots>\<close> here. \<open>led_state\<close> is assigned by \<^verbatim>\<open>pause\<close> before anything reads it.
\<close>

record pomodoro =
  priv_work_duration :: real
  priv_short_break :: real
  priv_long_break :: real
  schedule :: "string list"
  intervals :: "string \<rightharpoonup> string \<times> colour"
  idle_update :: real
  idle_led :: int
  idle_time :: real
  start_led :: int
  stop_led :: int
  led_state :: "colour list"

definition work_duration :: "pomodoro \<Rightarrow> real" where
  "work_duration p = priv_work_duration p / 60"

definition set_work_duration :: "real \<Rightarrow> pomodoro \<Rightarrow> error + pomodoro" where
  "set_work_duration duration p =
     (if duration \<le> 0 then Inl ValueError
      else Inr (p\<lparr>priv_work_duration := duration * 60\<rparr>))"

definition short_break :: "pomodoro \<Rightarrow> real" where
  "short_break p = priv_short_break p / 60"

definition set_short_break :: "real \<Rightarrow> pomodoro \<Rightarrow> error + pomodoro" where
  "set_short_break duration p =
     (if duration \<le> 0 then Inl ValueError
      else Inr (p\<lparr>priv_short_break := duration * 60\<rparr>))"

definition long_break :: "pomodoro \<Rightarrow> real" where
  "long_break p = priv_long_break p / 60"

definition set_long_break :: "real \<Rightarrow> pomodoro \<Rightarrow> error + pomodoro" where
  "set_long_break duration p =
     (if duration \<le> 0 then Inl ValueError
      else Inr (p\<lparr>priv_long_break := duration * 60\<rparr>))"

text \<open>The object before \<^verbatim>\<open>__init__\<close> has assigned anything.\<close>

definition unset :: pomodoro where
  "unset = \<lparr>priv_work_duration = 0, priv_short_break = 0, priv_long_break = 0,
     schedule = [], intervals = Map.empty, idle_update = 0, idle_led = 0, idle_time = 0,
     start_led = 0, stop_led = 0, led_state = []\<rparr>"

text \<open>\<^verbatim>\<open>Pomodoro.__init__\<close>: the three defaults go through the setters.\<close>

definition pomodoro_init :: "env \<Rightarrow> bool \<Rightarrow> express \<Rightarrow> (error + pomodoro) \<times> express" where
  "pomodoro_init e usb_down c =
     (case set_work_duration 45 unset of
        Inl err \<Rightarrow> (Inl err, c)
      | Inr p1 \<Rightarrow>
     (case set_short_break 10 p1 of
        Inl err \<Rightarrow> (Inl err, c)
      | Inr p2 \<Rightarrow>
     (case set_long_break 20 p2 of
        Inl err \<Rightarrow> (Inl err, c)
      | Inr p3 \<Rightarrow>
          let (t, c1) = monotonic e c in
          (Inr (p3\<lparr>schedule := [''w'', ''sb'', ''w'', ''lb'', ''w'', ''sb'', ''w''],
                    intervals := map_of
                      [(''w'', (''_work_duration'', (0, 0, 5))),
                       (''sb'', (''_short_break'', (0, 5, 0))),
                       (''lb'', (''_long_break'', (4, 1, 3)))],
                    idle_update := 0.5,
                    idle_led := 0,
                    idle_time := t,
                    start_led := (if usb_down then 4 else 9),
                    stop_led := (if usb_down then 5 else 0)\<rparr>), c1))))"

text \<open>
  What \<^verbatim>\<open>getattr\<close> can return on this object: a number, or an object that is not a
  number (a list, a dictionary, a bound method).
\<close>

datatype py_value = Num real | Obj

text \<open>
  \<^verbatim>\<open>getattr(self, name)\<close> as \<^verbatim>\<open>work_session\<close> uses it: the attributes that
  \<^verbatim>\<open>__init__\<close> assigns, the three properties, the methods of the class, and
  \<^verbatim>\<open>led_state\<close>, which exists only once \<^verbatim>\<open>pause\<close> has assigned a snapshot (a
  snapshot has ten entries, so the empty list stands for the missing attribute). A name
  the class does not define raises AttributeError; the names of Python's own object
  protocol (written with double underscores) are not modelled.
\<close>

definition getattr :: "pomodoro \<Rightarrow> string \<Rightarrow> error + py_value" where
  "getattr p name =
     (if name = ''_work_duration'' then Inr (Num (priv_work_duration p))
      else if name = ''_short_break'' then Inr (Num (priv_short_break p))
      else if name = ''_long_break'' then Inr (Num (priv_long_break p))
      else if name = ''work_duration'' then Inr (Num (work_duration p))
      else if name = ''short_break'' then Inr (Num (short_break p))
      else if name = ''long_break'' then Inr (Num (long_break p))
      else if name = ''idle_update'' then Inr (Num (idle_update p))
      else if name = ''idle_led'' then Inr (Num (real_of_int (idle_led p)))
      else if name = ''idle_time'' then Inr (Num (idle_time p))
      else if name = ''start_led'' then Inr (Num (real_of_int (start_led p)))
      else if name = ''stop_led'' then Inr (Num (real_of_int (stop_led p)))
      else if name = ''schedule'' \<or> name = ''intervals'' then Inr Obj
      else if name = ''led_state'' then (if led_state p = [] then Inl AttributeError else Inr Obj)
      else if name \<in> set [''idle_animation'', ''blink'', ''pause'', ''interval'',
                           ''work_session'', ''start''] then Inr Obj
      else Inl AttributeError)"

section \<open>Pause Sub-loop\<close>

definition blink :: "pomodoro \<Rightarrow> express \<Rightarrow> express" where
  "blink p c =
     (if pixels c = led_state p then set_pixels (replicate 10 (0, 0, 0)) c
      else set_pixels (led_state p) c)"

text \<open>\<^verbatim>\<open>cpx.single_press_a or cpx.single_press_b\<close>: button b is polled only when a did not fire.\<close>

definition press_a_or_b :: "env \<Rightarrow> express \<Rightarrow> bool \<times> express" where
  "press_a_or_b e c =
     (let (a, c1) = single_press_a e c in
      if a then (True, c1) else single_press_b e c1)"

text \<open>Lines 127 to 129: the blink timer of one pass of the pause loop.\<close>

definition blink_check :: "env \<Rightarrow> pomodoro \<Rightarrow> real \<Rightarrow> express \<Rightarrow> real \<times> express" where
  "blink_check e p pause_time c =
     (let (now, c1) = monotonic e c in
      if now - pause_time > 0.3 then monotonic e (blink p c1)
      else (pause_time, c1))"

text \<open>
  The \<^verbatim>\<open>while True\<close> of \<^verbatim>\<open>pause\<close>. The loop has no bound of its own, so the
  model counts passes: \<open>None\<close> means the given number of passes went by without a return.
\<close>

fun pause_loop :: "nat \<Rightarrow> env \<Rightarrow> pomodoro \<Rightarrow> real \<Rightarrow> express \<Rightarrow> express option" where
  "pause_loop 0 e p pause_time c = None"
| "pause_loop (Suc fuel) e p pause_time c =
     (case blink_check e p pause_time c of (pause_time1, c1) \<Rightarrow>
      (case press_a_or_b e c1 of (pressed, c2) \<Rightarrow>
        if pressed then Some (set_pixels (led_state p) c2)
        else pause_loop fuel e p pause_time1 c2))"

definition pause :: "nat \<Rightarrow> env \<Rightarrow> pomodoro \<Rightarrow> express \<Rightarrow> (pomodoro \<times> express) option" where
  "pause fuel e p c =
     (let (pause_time, c1) = monotonic e c;
          p1 = p\<lparr>led_state := pixels c1\<rparr>
      in map_option (\<lambda>c2. (p1, c2)) (pause_loop fuel e p1 pause_time c1))"

section \<open>Interval Runner\<close>

text \<open>
  \<^verbatim>\<open>interval\<close> returns nothing in the source. The model records which of its two
  \<^verbatim>\<open>return\<close> statements ended it: \<open>Completed\<close> for line 147, \<open>Cancelled\<close> for line 162.
\<close>

datatype outcome = Completed | Cancelled

datatype flow = Loop | Done outcome | Raised error

text \<open>The local variables of \<^verbatim>\<open>interval\<close> that the loop changes.\<close>

record ivl =
  led_start :: real
  led_current :: int

text \<open>Lines 142 to 149: the countdown part of one pass.\<close>

definition countdown :: "env \<Rightarrow> real \<Rightarrow> pomodoro \<Rightarrow> ivl \<Rightarrow> express \<Rightarrow> flow \<times> ivl \<times> express" where
  "countdown e led_duration p v c =
     (let (now, c1) = monotonic e c in
      if now - led_start v > led_duration then
        (case set_pixel (led_current v) (0, 0, 0) c1 of
           None \<Rightarrow> (Raised IndexError, v, c1)
         | Some c2 \<Rightarrow>
             if led_current v = stop_led p then
               (let (on, c3) = switch e c2 in
                (Done Completed, v, if on then play_tone 1720 0.1 c3 else c3))
             else
               (let (t, c3) = monotonic e c2 in
                (Loop, \<lparr>led_start = t, led_current = (led_current v - 1) mod 10\<rparr>, c3)))
      else (Loop, v, c1))"

text \<open>Lines 151 to 154: the pause part.\<close>

definition pause_check ::
  "nat \<Rightarrow> env \<Rightarrow> pomodoro \<Rightarrow> ivl \<Rightarrow> express \<Rightarrow> (ivl \<times> pomodoro \<times> express) option" where
  "pause_check fuel e p v c =
     (let (a, c1) = single_press_a e c in
      if a then
        (let (pre_pause, c2) = monotonic e c1 in
         case pause fuel e p c2 of
           None \<Rightarrow> None
         | Some (p1, c3) \<Rightarrow>
             (let (t, c4) = monotonic e c3 in
              Some (v\<lparr>led_start := led_start v + (t - pre_pause)\<rparr>, p1, c4)))
      else Some (v, p, c1))"

text \<open>Lines 156 to 162: the cancel part, with its two red flashes.\<close>

definition flash :: "express \<Rightarrow> express" where
  "flash c = sleep 0.1 (set_pixels (replicate 10 (0, 0, 0))
               (sleep 0.2 (set_pixels (replicate 10 (10, 0, 0)) c)))"

definition cancel_check :: "env \<Rightarrow> express \<Rightarrow> flow \<times> express" where
  "cancel_check e c =
     (let (b, c1) = single_press_b e c in
      if b then (Done Cancelled, fold (\<lambda>_. flash) [0 ..< 2] c1)
      else (Loop, c1))"

text \<open>One pass of the \<^verbatim>\<open>while True\<close> of \<^verbatim>\<open>interval\<close>.\<close>

definition interval_body ::
  "nat \<Rightarrow> env \<Rightarrow> real \<Rightarrow> pomodoro \<Rightarrow> ivl \<Rightarrow> express \<Rightarrow> (flow \<times> ivl \<times> pomodoro \<times> express) option" where
  "interval_body fuel e led_duration p v c =
     (case countdown e led_duration p v c of
        (Loop, v1, c1) \<Rightarrow>
          (case pause_check fuel e p v1 c1 of
             None \<Rightarrow> None
           | Some (v2, p2, c2) \<Rightarrow>
               (case cancel_check e c2 of (f, c3) \<Rightarrow> Some (f, v2, p2, c3)))
      | (f, v1, c1) \<Rightarrow> Some (f, v1, p, c1))"

fun interval_loop ::
  "nat \<Rightarrow> env \<Rightarrow> real \<Rightarrow> pomodoro \<Rightarrow> ivl \<Rightarrow> express \<Rightarrow> ((error + outcome) \<times> pomodoro \<times> express) option" where
  "interval_loop 0 e led_duration p v c = None"
| "interval_loop (Suc fuel) e led_duration p v c =
     (case interval_body fuel e led_duration p v c of
        None \<Rightarrow> None
      | Some (Loop, v1, p1, c1) \<Rightarrow> interval_loop fuel e led_duration p1 v1 c1
      | Some (Done out, v1, p1, c1) \<Rightarrow> Some (Inr out, p1, c1)
      | Some (Raised err, v1, p1, c1) \<Rightarrow> Some (Inl err, p1, c1))"

definition interval ::
  "nat \<Rightarrow> env \<Rightarrow> real \<Rightarrow> colour \<Rightarrow> pomodoro \<Rightarrow> express \<Rightarrow> ((error + outcome) \<times> pomodoro \<times> express) option" where
  "interval fuel e duration color p c =
     (let c1 = set_pixels (replicate 10 color) c;
          (t, c2) = monotonic e c1;
          led_duration = duration / 10
      in interval_loop fuel e led_duration p \<lparr>led_start = t, led_current = start_led p\<rparr> c2)"

section \<open>Schedule Engine\<close>

text \<open>
  The call \<^verbatim>\<open>self.interval(duration, color)\<close> of line 169 with whatever
  \<^verbatim>\<open>getattr\<close> returned. With a number it is \<open>interval\<close>. With anything else, lines
  136 and 137 still fill the ring and read the clock, and the division of line 138
  raises TypeError.
\<close>

definition interval_call ::
  "nat \<Rightarrow> env \<Rightarrow> py_value \<Rightarrow> colour \<Rightarrow> pomodoro \<Rightarrow> express
     \<Rightarrow> ((error + outcome) \<times> pomodoro \<times> express) option" where
  "interval_call fuel e duration color p c =
     (case duration of
        Num d \<Rightarrow> interval fuel e d color p c
      | Obj \<Rightarrow>
          (let c1 = set_pixels (replicate 10 color) c;
               (t, c2) = monotonic e c1
           in Some (Inl TypeError, p, c2)))"

text \<open>
  The \<^verbatim>\<open>for\<close> loop of \<^verbatim>\<open>work_session\<close> over the remaining periods. The result
  lists the outcome of every interval that ran to its return, and the error that ended
  the session, if one did.
\<close>

fun run_schedule ::
  "nat \<Rightarrow> env \<Rightarrow> string list \<Rightarrow> pomodoro \<Rightarrow> express
     \<Rightarrow> (outcome list \<times> error option \<times> pomodoro \<times> express) option" where
  "run_schedule fuel e [] p c = Some ([], None, p, c)"
| "run_schedule fuel e (period # rest) p c =
     (case intervals p period of
        None \<Rightarrow> Some ([], Some KeyError, p, c)
      | Some (attr, color) \<Rightarrow>
     (case getattr p attr of
        Inl err \<Rightarrow> Some ([], Some err, p, c)
      | Inr duration \<Rightarrow>
     (case interval_call fuel e duration color p c of
        None \<Rightarrow> None
      | Some (Inl err, p1, c1) \<Rightarrow> Some ([], Some err, p1, c1)
      | Some (Inr out, p1, c1) \<Rightarrow>
          (case run_schedule fuel e rest p1 c1 of
             None \<Rightarrow> None
           | Some (outs, r, p2, c2) \<Rightarrow> Some (out # outs, r, p2, c2)))))"

definition work_session ::
  "nat \<Rightarrow> env \<Rightarrow> pomodoro \<Rightarrow> express \<Rightarrow> (outcome list \<times> error option \<times> pomodoro \<times> express) option" where
  "work_session fuel e p c = run_schedule fuel e (schedule p) p c"

section \<open>Concrete surroundings for test runs\<close>

text \<open>
  A clock that advances by one second at every reading, buttons that follow the given
  streams, and the switch on.
\<close>

definition world :: "(nat \<Rightarrow> bool) \<Rightarrow> (nat \<Rightarrow> bool) \<Rightarrow> env" where
  "world a b = \<lparr>clock = (\<lambda>n. real n), raw_a = a, raw_b = b, raw_switch = (\<lambda>n. True)\<rparr>"

text \<open>
  The program state after the module has been imported (\<^verbatim>\<open>cpx = Express()\<close>) and
  \<^verbatim>\<open>Pomodoro(usb_down)\<close> has been constructed.
\<close>

definition started :: "env \<Rightarrow> bool \<Rightarrow> pomodoro \<times> express" where
  "started e usb_down =
     (case pomodoro_init e usb_down (express_init e) of
        (Inr p, c) \<Rightarrow> (p, c)
      | (Inl err, c) \<Rightarrow> (unset, c))"

text \<open>The started board with all ten pixels blue, as an interval leaves them at its start.\<close>

definition blue_board :: "env \<Rightarrow> express" where
  "blue_board e = set_pixels (replicate 10 (0, 0, 5)) (snd (started e True))"

text \<open>
  The timer after \<^verbatim>\<open>p.schedule = ["w", "sb"]\<close> and \<^verbatim>\<open>p.short_break = 0.1\<close>
  (six seconds).
\<close>

definition two_entries :: "env \<Rightarrow> pomodoro" where
  "two_entries e = (fst (started e True))\<lparr>schedule := [''w'', ''sb''], priv_short_break := 6\<rparr>"

section \<open>Effects named in the statements\<close>

text \<open>
  The abort animation in the words of the specification: two cycles of a full-red flash
  and then a blank display, as the effects they leave.
\<close>

definition double_red_flash :: "event list" where
  "double_red_flash =
     [Fill (replicate 10 (10, 0, 0)), Sleep 0.2, Fill (replicate 10 (0, 0, 0)), Sleep 0.1,
      Fill (replicate 10 (10, 0, 0)), Sleep 0.2, Fill (replicate 10 (0, 0, 0)), Sleep 0.1]"

text \<open>
  An effect that is neither a tone nor the switching of the pixel \<open>stop\<close>: what a run
  may emit before its countdown has reached the stop pixel.
\<close>

definition quiet :: "int \<Rightarrow> event \<Rightarrow> bool" where
  "quiet stop ev = (case ev of Tone f d \<Rightarrow> False | Pixel i col \<Rightarrow> i \<noteq> stop | _ \<Rightarrow> True)"



section \<open>Basic facts about the parts\<close>

lemma single_press_a_eq:
  "single_press_a e c =
     (if \<not> raw_a e (n_a c) then (False, c\<lparr>n_a := Suc (n_a c)\<rparr>)
      else if clock e (n_clock c) - last_button_a c > sensitivity c
      then (True, c\<lparr>n_a := Suc (n_a c), n_clock := Suc (Suc (n_clock c)),
                     last_button_a := clock e (Suc (n_clock c))\<rparr>)
      else (False, c\<lparr>n_a := Suc (n_a c), n_clock := Suc (n_clock c)\<rparr>))"
  by (simp add: single_press_a_def button_a_def monotonic_def)

lemma single_press_b_eq:
  "single_press_b e c =
     (if \<not> raw_b e (n_b c) then (False, c\<lparr>n_b := Suc (n_b c)\<rparr>)
      else if clock e (n_clock c) - last_button_b c > sensitivity c
      then (True, c\<lparr>n_b := Suc (n_b c), n_clock := Suc (Suc (n_clock c)),
                     last_button_b := clock e (Suc (n_clock c))\<rparr>)
      else (False, c\<lparr>n_b := Suc (n_b c), n_clock := Suc (n_clock c)\<rparr>))"
  by (simp add: single_press_b_def button_b_def monotonic_def)

lemma express_init_eq:
  "express_init e = \<lparr>pixels = replicate 10 (0, 0, 0), last_button_a = clock e 0,
     last_button_b = clock e 1, sensitivity = 0.25, n_clock = 2, n_a = 0, n_b = 0,
     n_switch = 0, effects = []\<rparr>"
  by (simp add: express_init_def power_on_def monotonic_def numeral_2_eq_2)

lemma started_eq:
  "started e usb_down =
     (\<lparr>priv_work_duration = 2700, priv_short_break = 600, priv_long_break = 1200,
       schedule = [''w'', ''sb'', ''w'', ''lb'', ''w'', ''sb'', ''w''],
       intervals = map_of
         [(''w'', (''_work_duration'', (0, 0, 5))),
          (''sb'', (''_short_break'', (0, 5, 0))),
          (''lb'', (''_long_break'', (4, 1, 3)))],
       idle_update = 0.5, idle_led = 0, idle_time = clock e 2,
       start_led = (if usb_down then 4 else 9), stop_led = (if usb_down then 5 else 0),
       led_state = []\<rparr>,
      \<lparr>pixels = replicate 10 (0, 0, 0), last_button_a = clock e 0,
       last_button_b = clock e 1, sensitivity = 0.25, n_clock = 3, n_a = 0, n_b = 0,
       n_switch = 0, effects = []\<rparr>)"
  by (simp add: started_def pomodoro_init_def express_init_eq set_work_duration_def
      set_short_break_def set_long_break_def unset_def monotonic_def)

lemma set_pixel_ring:
  "0 \<le> i \<Longrightarrow> i < 10 \<Longrightarrow>
   set_pixel i col c =
     Some (c\<lparr>pixels := (pixels c)[nat i := col], effects := effects c @ [Pixel i col]\<rparr>)"
  by (simp add: set_pixel_def)

lemma press_a_or_b_frame:
  "pixels (snd (press_a_or_b e c)) = pixels c \<and> effects (snd (press_a_or_b e c)) = effects c"
  by (simp add: press_a_or_b_def single_press_a_eq single_press_b_eq)

lemma pause_loop_returns:
  "pause_loop fuel e p t c = Some c1 \<Longrightarrow>
   pixels c1 = led_state p \<and>
   (\<exists>c_poll c_after. press_a_or_b e c_poll = (True, c_after) \<and>
      c1 = set_pixels (led_state p) c_after)"
proof (induction fuel arbitrary: t c)
  case 0
  then show ?case by simp
next
  case (Suc fuel)
  obtain t1 c2 where b: "blink_check e p t c = (t1, c2)" by (cases "blink_check e p t c")
  obtain pressed c3 where q: "press_a_or_b e c2 = (pressed, c3)" by (cases "press_a_or_b e c2")
  show ?case
  proof (cases pressed)
    case True
    with Suc.prems b q have "c1 = set_pixels (led_state p) c3" by simp
    with True q show ?thesis by (auto simp: set_pixels_def)
  next
    case False
    with Suc.prems b q have "pause_loop fuel e p t1 c3 = Some c1" by simp
    then show ?thesis by (rule Suc.IH)
  qed
qed

lemma pause_eq:
  "pause fuel e p c =
     map_option (Pair (p\<lparr>led_state := pixels c\<rparr>))
       (pause_loop fuel e (p\<lparr>led_state := pixels c\<rparr>) (clock e (n_clock c))
          (c\<lparr>n_clock := Suc (n_clock c)\<rparr>))"
  by (simp add: pause_def monotonic_def Let_def)

lemma pause_run:
  "pause (Suc (Suc 0)) (world (\<lambda>n. 1 \<le> n) (\<lambda>n. False))
      (fst (started (world (\<lambda>n. 1 \<le> n) (\<lambda>n. False)) True))
      (blue_board (world (\<lambda>n. 1 \<le> n) (\<lambda>n. False)))
   = Some (fst (started (world (\<lambda>n. 1 \<le> n) (\<lambda>n. False)) True)\<lparr>led_state := replicate 10 (0, 0, 5)\<rparr>,
      \<lparr>pixels = replicate 10 (0, 0, 5), last_button_a = 9,
       last_button_b = 1, sensitivity = 0.25, n_clock = 10, n_a = 2, n_b = 1,
       n_switch = 0,
       effects = [Fill (replicate 10 (0, 0, 5)), Fill (replicate 10 (0, 0, 0)),
                  Fill (replicate 10 (0, 0, 5)), Fill (replicate 10 (0, 0, 5))]\<rparr>)"
  by (simp add: pause_eq blink_check_def blink_def press_a_or_b_def single_press_a_eq
      single_press_b_eq monotonic_def set_pixels_def started_eq world_def blue_board_def Let_def)

lemma pause_check_run:
  "pause_check (Suc 0) (world (\<lambda>n. True) (\<lambda>n. False))
      (fst (started (world (\<lambda>n. True) (\<lambda>n. False)) True))
      \<lparr>led_start = 4.7, led_current = 4\<rparr>
      (blue_board (world (\<lambda>n. True) (\<lambda>n. False)))
   = Some (\<lparr>led_start = 10.7, led_current = 4\<rparr>,
      fst (started (world (\<lambda>n. True) (\<lambda>n. False)) True)\<lparr>led_state := replicate 10 (0, 0, 5)\<rparr>,
      \<lparr>pixels = replicate 10 (0, 0, 5), last_button_a = 10,
       last_button_b = 1, sensitivity = 0.25, n_clock = 12, n_a = 2, n_b = 0,
       n_switch = 0,
       effects = [Fill (replicate 10 (0, 0, 5)), Fill (replicate 10 (0, 0, 0)),
                  Fill (replicate 10 (0, 0, 5))]\<rparr>)"
  by (simp add: pause_check_def pause_eq blink_check_def blink_def press_a_or_b_def
      single_press_a_eq single_press_b_eq monotonic_def set_pixels_def started_eq world_def
      blue_board_def Let_def)

lemma quiet_fills: "list_all (quiet s) (map Fill fs)"
  by (induction fs) (simp_all add: quiet_def)

lemma flash_twice:
  "fold (\<lambda>_. flash) [0 ..< 2] c = c\<lparr>pixels := replicate 10 (0, 0, 0), effects := effects c @ double_red_flash\<rparr>"
  by (simp add: flash_def sleep_def set_pixels_def double_red_flash_def numeral_2_eq_2)

lemma cancel_check_eq:
  "cancel_check e c =
     (if fst (single_press_b e c)
      then (Done Cancelled, (snd (single_press_b e c))\<lparr>pixels := replicate 10 (0, 0, 0),
              effects := effects c @ double_red_flash\<rparr>)
      else (Loop, snd (single_press_b e c)))"
  by (simp add: cancel_check_def flash_twice single_press_b_eq)

lemma single_press_a_frame:
  "pixels (snd (single_press_a e c)) = pixels c \<and> effects (snd (single_press_a e c)) = effects c
   \<and> n_switch (snd (single_press_a e c)) = n_switch c"
  by (simp add: single_press_a_eq)

lemma single_press_b_frame:
  "pixels (snd (single_press_b e c)) = pixels c \<and> effects (snd (single_press_b e c)) = effects c
   \<and> n_switch (snd (single_press_b e c)) = n_switch c"
  by (simp add: single_press_b_eq)

lemma press_a_or_b_switch: "n_switch (snd (press_a_or_b e c)) = n_switch c"
  by (simp add: press_a_or_b_def single_press_a_eq single_press_b_eq)

lemma blink_check_effects:
  "\<exists>fs. effects (snd (blink_check e p t c)) = effects c @ map Fill fs"
proof (cases "clock e (n_clock c) - t > 0.3")
  case True
  then have "effects (snd (blink_check e p t c)) =
      effects c @ map Fill [if pixels c = led_state p then replicate 10 (0, 0, 0) else led_state p]"
    by (simp add: blink_check_def blink_def monotonic_def set_pixels_def)
  then show ?thesis by blast
next
  case False
  then have "effects (snd (blink_check e p t c)) = effects c @ map Fill []"
    by (simp add: blink_check_def monotonic_def)
  then show ?thesis by blast
qed

lemma blink_check_switch: "n_switch (snd (blink_check e p t c)) = n_switch c"
  by (simp add: blink_check_def blink_def monotonic_def set_pixels_def)

lemma pause_loop_effects:
  "pause_loop fuel e p t c = Some c1 \<Longrightarrow>
   n_switch c1 = n_switch c \<and> (\<exists>fs. effects c1 = effects c @ map Fill fs)"
proof (induction fuel arbitrary: t c)
  case 0
  then show ?case by simp
next
  case (Suc fuel)
  obtain t1 c2 where b: "blink_check e p t c = (t1, c2)" by (cases "blink_check e p t c")
  obtain pressed c3 where q: "press_a_or_b e c2 = (pressed, c3)" by (cases "press_a_or_b e c2")
  from b blink_check_effects [of e p t c] obtain fs where fs: "effects c2 = effects c @ map Fill fs"
    by auto
  from b blink_check_switch [of e p t c] have s2: "n_switch c2 = n_switch c" by simp
  from q press_a_or_b_frame [of e c2] press_a_or_b_switch [of e c2]
  have c3: "effects c3 = effects c2" "n_switch c3 = n_switch c2" by simp_all
  show ?case
  proof (cases pressed)
    case True
    with Suc.prems b q have "c1 = set_pixels (led_state p) c3" by simp
    then have "effects c1 = effects c @ map Fill (fs @ [led_state p])" and "n_switch c1 = n_switch c"
      using fs c3 s2 by (simp_all add: set_pixels_def)
    then show ?thesis by blast
  next
    case False
    with Suc.prems b q have "pause_loop fuel e p t1 c3 = Some c1" by simp
    from Suc.IH [OF this] obtain gs where "n_switch c1 = n_switch c3"
      and "effects c1 = effects c3 @ map Fill gs" by blast
    then have "effects c1 = effects c @ map Fill (fs @ gs)" and "n_switch c1 = n_switch c"
      using fs c3 s2 by simp_all
    then show ?thesis by blast
  qed
qed

lemma pause_check_effects:
  assumes "pause_check fuel e p v c = Some (v1, p1, c1)"
  shows "led_current v1 = led_current v \<and> stop_led p1 = stop_led p \<and> start_led p1 = start_led p
     \<and> n_switch c1 = n_switch c \<and> (\<exists>fs. effects c1 = effects c @ map Fill fs)"
proof (cases "fst (single_press_a e c)")
  case False
  with assms have "v1 = v" "p1 = p" "c1 = snd (single_press_a e c)"
    by (auto simp: pause_check_def split: prod.splits)
  then have "led_current v1 = led_current v \<and> stop_led p1 = stop_led p \<and> start_led p1 = start_led p
     \<and> n_switch c1 = n_switch c \<and> effects c1 = effects c @ map Fill []"
    using single_press_a_frame [of e c] by simp
  then show ?thesis by blast
next
  case True
  define c2 where "c2 = snd (monotonic e (snd (single_press_a e c)))"
  have c2: "effects c2 = effects c" "n_switch c2 = n_switch c"
    using single_press_a_frame [of e c] by (simp_all add: c2_def monotonic_def)
  from True assms obtain c3 where run: "pause fuel e p c2 = Some (p1, c3)"
    and v1: "led_current v1 = led_current v"
    and c1: "effects c1 = effects c3" "n_switch c1 = n_switch c3"
    by (auto simp: pause_check_def c2_def monotonic_def Let_def
        split: prod.splits option.splits)
  from run have p1: "p1 = p\<lparr>led_state := pixels c2\<rparr>"
    and loop: "pause_loop fuel e p1 (clock e (n_clock c2)) (c2\<lparr>n_clock := Suc (n_clock c2)\<rparr>) = Some c3"
    by (auto simp: pause_eq)
  from pause_loop_effects [OF loop] obtain fs where
    "n_switch c3 = n_switch c2" "effects c3 = effects c2 @ map Fill fs" by auto
  with c1 c2 v1 p1 show ?thesis by auto
qed

lemma countdown_eq:
  assumes "0 \<le> led_current v" and "led_current v < 10"
  shows "countdown e d p v c =
     (if clock e (n_clock c) - led_start v > d then
        if led_current v = stop_led p then
          (Done Completed, v,
           c\<lparr>n_clock := Suc (n_clock c), n_switch := Suc (n_switch c),
              pixels := (pixels c)[nat (led_current v) := (0, 0, 0)],
              effects := effects c @ Pixel (led_current v) (0, 0, 0) #
                (if raw_switch e (n_switch c) then [Tone 1720 0.1] else [])\<rparr>)
        else
          (Loop, \<lparr>led_start = clock e (Suc (n_clock c)), led_current = (led_current v - 1) mod 10\<rparr>,
           c\<lparr>n_clock := Suc (Suc (n_clock c)),
              pixels := (pixels c)[nat (led_current v) := (0, 0, 0)],
              effects := effects c @ [Pixel (led_current v) (0, 0, 0)]\<rparr>)
      else (Loop, v, c\<lparr>n_clock := Suc (n_clock c)\<rparr>))"
  using assms
  by (simp add: countdown_def monotonic_def set_pixel_ring switch_def play_tone_def Let_def)

lemma countdown_loop:
  assumes "countdown e d p v c = (Loop, v1, c1)" and "0 \<le> led_current v" and "led_current v < 10"
  shows "0 \<le> led_current v1 \<and> led_current v1 < 10 \<and> n_switch c1 = n_switch c
     \<and> (\<exists>m. list_all (quiet (stop_led p)) m \<and> effects c1 = effects c @ m)"
proof (cases "clock e (n_clock c) - led_start v > d")
  case False
  with assms have "v1 = v" and "effects c1 = effects c @ []" and "n_switch c1 = n_switch c"
    by (auto simp: countdown_eq)
  moreover have "list_all (quiet (stop_led p)) []" by simp
  ultimately show ?thesis using assms(2,3) by blast
next
  case True
  with assms have ns: "led_current v \<noteq> stop_led p"
    and v1: "led_current v1 = (led_current v - 1) mod 10"
    and ef: "effects c1 = effects c @ [Pixel (led_current v) (0, 0, 0)]"
    and sw: "n_switch c1 = n_switch c"
    by (auto simp: countdown_eq split: if_splits)
  from ns have "list_all (quiet (stop_led p)) [Pixel (led_current v) (0, 0, 0)]"
    by (simp add: quiet_def)
  with v1 ef sw show ?thesis by auto
qed

lemma interval_body_quiet:
  assumes "interval_body fuel e d p v c = Some (f, v1, p1, c1)"
    and "0 \<le> led_current v" and "led_current v < 10"
    and "f = Loop \<or> f = Done Cancelled"
  shows "stop_led p1 = stop_led p \<and> 0 \<le> led_current v1 \<and> led_current v1 < 10
     \<and> n_switch c1 = n_switch c
     \<and> (\<exists>m. list_all (quiet (stop_led p)) m \<and>
           effects c1 = effects c @ m @ (if f = Loop then [] else double_red_flash))"
proof -
  obtain f0 v0 c0 where cd: "countdown e d p v c = (f0, v0, c0)"
    by (cases "countdown e d p v c")
  have f0: "f0 = Loop"
  proof (rule ccontr)
    assume "f0 \<noteq> Loop"
    with assms(1) cd have "f = f0" by (cases f0) (auto simp: interval_body_def)
    moreover from cd assms(2,3) have "f0 = Loop \<or> f0 = Done Completed"
      by (auto simp: countdown_eq split: if_splits)
    ultimately show False using assms(4) \<open>f0 \<noteq> Loop\<close> by auto
  qed
  from countdown_loop [OF cd [unfolded f0] assms(2,3)] obtain m0 where
    v0: "0 \<le> led_current v0" "led_current v0 < 10" and s0: "n_switch c0 = n_switch c"
    and m0: "list_all (quiet (stop_led p)) m0" "effects c0 = effects c @ m0" by blast
  from assms(1) cd f0 obtain c2 where pc: "pause_check fuel e p v0 c0 = Some (v1, p1, c2)"
    and cc: "cancel_check e c2 = (f, c1)"
    by (auto simp: interval_body_def split: option.splits prod.splits)
  from pause_check_effects [OF pc] obtain fs where
    v1: "led_current v1 = led_current v0" and p1: "stop_led p1 = stop_led p"
    and s2: "n_switch c2 = n_switch c0" and m2: "effects c2 = effects c0 @ map Fill fs" by blast
  from cc have c1: "n_switch c1 = n_switch c2"
    "effects c1 = effects c2 @ (if f = Loop then [] else double_red_flash)"
    using single_press_b_frame [of e c2]
    by (auto simp: cancel_check_eq split: if_splits)
  have "list_all (quiet (stop_led p)) (m0 @ map Fill fs)"
    using m0(1) quiet_fills by simp
  moreover have "effects c1 = effects c @ (m0 @ map Fill fs) @ (if f = Loop then [] else double_red_flash)"
    using c1 m2 m0(2) by simp
  ultimately show ?thesis using v0 v1 p1 s0 s2 c1(1) by metis
qed

lemma interval_loop_cancelled:
  "interval_loop fuel e d p v c = Some (Inr Cancelled, p1, c1) \<Longrightarrow>
   0 \<le> led_current v \<Longrightarrow> led_current v < 10 \<Longrightarrow>
   n_switch c1 = n_switch c \<and>
   (\<exists>m. list_all (quiet (stop_led p)) m \<and> effects c1 = effects c @ m @ double_red_flash)"
proof (induction fuel arbitrary: p v c)
  case 0
  then show ?case by simp
next
  case (Suc fuel)
  from Suc.prems(1) obtain f v2 p2 c2 where
    body: "interval_body fuel e d p v c = Some (f, v2, p2, c2)"
    by (auto split: option.splits)
  from Suc.prems(1) body have f: "f = Loop \<or> f = Done Cancelled"
    by (cases f) auto
  from interval_body_quiet [OF body Suc.prems(2,3) f] obtain m where
    p2: "stop_led p2 = stop_led p" and v2: "0 \<le> led_current v2" "led_current v2 < 10"
    and s2: "n_switch c2 = n_switch c" and m: "list_all (quiet (stop_led p)) m"
    and e2: "effects c2 = effects c @ m @ (if f = Loop then [] else double_red_flash)" by blast
  show ?case
  proof (cases "f = Loop")
    case False
    with f Suc.prems(1) body have "c1 = c2" by auto
    with False f s2 m e2 show ?thesis by auto
  next
    case True
    with Suc.prems(1) body have "interval_loop fuel e d p2 v2 c2 = Some (Inr Cancelled, p1, c1)"
      by simp
    from Suc.IH [OF this v2] obtain m' where "n_switch c1 = n_switch c2"
      and "list_all (quiet (stop_led p2)) m'" and "effects c1 = effects c2 @ m' @ double_red_flash"
      by blast
    with True p2 s2 m e2 have "n_switch c1 = n_switch c"
      and "list_all (quiet (stop_led p)) (m @ m')"
      and "effects c1 = effects c @ (m @ m') @ double_red_flash" by simp_all
    then show ?thesis by blast
  qed
qed

lemma interval_loop_numeral:
  "interval_loop (numeral k) e led_duration p v c =
     (case interval_body (pred_numeral k) e led_duration p v c of
        None \<Rightarrow> None
      | Some (Loop, v1, p1, c1) \<Rightarrow> interval_loop (pred_numeral k) e led_duration p1 v1 c1
      | Some (Done out, v1, p1, c1) \<Rightarrow> Some (Inr out, p1, c1)
      | Some (Raised err, v1, p1, c1) \<Rightarrow> Some (Inl err, p1, c1))"
  by (simp add: numeral_eq_Suc)

lemma pause_loop_numeral:
  "pause_loop (numeral k) e p pause_time c =
     (case blink_check e p pause_time c of (pause_time1, c1) \<Rightarrow>
      (case press_a_or_b e c1 of (pressed, c2) \<Rightarrow>
        if pressed then Some (set_pixels (led_state p) c2)
        else pause_loop (pred_numeral k) e p pause_time1 c2))"
  by (simp add: numeral_eq_Suc)

lemmas run_simps =
  interval_def interval_loop_numeral interval_body_def countdown_def pause_check_def
  cancel_check_eq pause_eq pause_loop_numeral blink_check_def blink_def press_a_or_b_def
  single_press_a_eq single_press_b_eq monotonic_def switch_def play_tone_def set_pixels_def
  set_pixel_ring double_red_flash_def started_eq world_def blue_board_def Let_def

lemma cancel_run:
  "interval 3 (world (\<lambda>n. False) (\<lambda>n. n = 2)) 25 (0, 0, 5)
      (fst (started (world (\<lambda>n. False) (\<lambda>n. n = 2)) True))
      (snd (started (world (\<lambda>n. False) (\<lambda>n. n = 2)) True))
   = Some (Inr Cancelled, fst (started (world (\<lambda>n. False) (\<lambda>n. n = 2)) True),
      \<lparr>pixels = replicate 10 (0, 0, 0), last_button_a = 0, last_button_b = 9,
       sensitivity = 0.25, n_clock = 10, n_a = 3, n_b = 3, n_switch = 0,
       effects = Fill (replicate 10 (0, 0, 5)) # Pixel 4 (0, 0, 0) # double_red_flash\<rparr>)"
  by (simp add: run_simps)

lemma session_run:
  "work_session 10 (world (\<lambda>n. False) (\<lambda>n. n = 0)) (two_entries (world (\<lambda>n. False) (\<lambda>n. n = 0)))
      (snd (started (world (\<lambda>n. False) (\<lambda>n. n = 0)) True))
   = Some ([Cancelled, Completed], None, two_entries (world (\<lambda>n. False) (\<lambda>n. n = 0)),
       \<lparr>pixels = replicate 10 (0, 0, 0), last_button_a = 0, last_button_b = 6,
        sensitivity = 0.25, n_clock = 27, n_a = 10, n_b = 10, n_switch = 1,
        effects = Fill (replicate 10 (0, 0, 5)) # double_red_flash @
          [Fill (replicate 10 (0, 5, 0)),
           Pixel 4 (0, 0, 0), Pixel 3 (0, 0, 0), Pixel 2 (0, 0, 0), Pixel 1 (0, 0, 0),
           Pixel 0 (0, 0, 0), Pixel 9 (0, 0, 0), Pixel 8 (0, 0, 0), Pixel 7 (0, 0, 0),
           Pixel 6 (0, 0, 0), Pixel 5 (0, 0, 0), Tone 1720 0.1]\<rparr>)"
  apply (simp add: work_session_def two_entries_def getattr_def interval_call_def run_simps)
  apply (simp add: numeral_eq_Suc)
  done

lemma three_in_one_pass:
  "interval_body 5 (world (\<lambda>n. True) (\<lambda>n. True)) 0.5
      (fst (started (world (\<lambda>n. True) (\<lambda>n. True)) True))
      \<lparr>led_start = 2, led_current = 4\<rparr>
      (blue_board (world (\<lambda>n. True) (\<lambda>n. True)))
   = Some (Done Cancelled, \<lparr>led_start = 10, led_current = 3\<rparr>,
      fst (started (world (\<lambda>n. True) (\<lambda>n. True)) True)
        \<lparr>led_state := (replicate 10 (0, 0, 5))[4 := (0, 0, 0)]\<rparr>,
      \<lparr>pixels = replicate 10 (0, 0, 0), last_button_a = 12, last_button_b = 15,
       sensitivity = 0.25, n_clock = 16, n_a = 2, n_b = 1, n_switch = 0,
       effects = [Fill (replicate 10 (0, 0, 5)), Pixel 4 (0, 0, 0),
                  Fill (replicate 10 (0, 0, 0)),
                  Fill ((replicate 10 (0, 0, 5))[4 := (0, 0, 0)])] @ double_red_flash\<rparr>)"
  by (simp add: run_simps)

lemma run_schedule_length:
  "run_schedule fuel e periods p c = Some (outs, None, p1, c1) \<Longrightarrow> length outs = length periods"
proof (induction periods arbitrary: p c outs)
  case Nil
  then show ?case by simp
next
  case (Cons period rest)
  from Cons.prems obtain attr color duration out p2 c2 outs2 where
    "interval_call fuel e duration color p c = Some (Inr out, p2, c2)"
    and rest: "run_schedule fuel e rest p2 c2 = Some (outs2, None, p1, c1)"
    and outs: "outs = out # outs2"
    by (auto split: option.splits sum.splits prod.splits)
  from Cons.IH [OF rest] outs show ?case by simp
qed

lemma cancelled_pass:
  assumes "countdown e d p v c = (Loop, v0, c0)"
    and "pause_check fuel e p v0 c0 = Some (v2, p2, c2)"
  shows "interval_body fuel e d p v c = Some (fst (cancel_check e c2), v2, p2, snd (cancel_check e c2))"
  using assms by (simp add: interval_body_def split: prod.splits)

lemma countdown_no_poll:
  "n_a (snd (snd (countdown e d p v c))) = n_a c \<and> n_b (snd (snd (countdown e d p v c))) = n_b c"
  by (simp add: countdown_def monotonic_def set_pixel_def switch_def play_tone_def Let_def
      split: option.splits)

lemma completed_pass:
  "fst (countdown e d p v c) = Done Completed \<Longrightarrow>
   interval_body fuel e d p v c =
     Some (Done Completed, fst (snd (countdown e d p v c)), p, snd (snd (countdown e d p v c)))"
  by (cases "countdown e d p v c") (simp add: interval_body_def)

lemma three_in_one_countdown:
  "countdown (world (\<lambda>n. True) (\<lambda>n. True)) 0.5
      (fst (started (world (\<lambda>n. True) (\<lambda>n. True)) True))
      \<lparr>led_start = 2, led_current = 4\<rparr>
      (blue_board (world (\<lambda>n. True) (\<lambda>n. True)))
   = (Loop, \<lparr>led_start = 4, led_current = 3\<rparr>,
      \<lparr>pixels = (replicate 10 (0, 0, 5))[4 := (0, 0, 0)], last_button_a = 0, last_button_b = 1,
       sensitivity = 0.25, n_clock = 5, n_a = 0, n_b = 0, n_switch = 0,
       effects = [Fill (replicate 10 (0, 0, 5)), Pixel 4 (0, 0, 0)]\<rparr>)"
  by (simp add: run_simps)

lemma three_in_one_pause:
  "pause_check 5 (world (\<lambda>n. True) (\<lambda>n. True))
      (fst (started (world (\<lambda>n. True) (\<lambda>n. True)) True))
      \<lparr>led_start = 4, led_current = 3\<rparr>
      \<lparr>pixels = (replicate 10 (0, 0, 5))[4 := (0, 0, 0)], last_button_a = 0, last_button_b = 1,
       sensitivity = 0.25, n_clock = 5, n_a = 0, n_b = 0, n_switch = 0,
       effects = [Fill (replicate 10 (0, 0, 5)), Pixel 4 (0, 0, 0)]\<rparr>
   = Some (\<lparr>led_start = 10, led_current = 3\<rparr>,
      fst (started (world (\<lambda>n. True) (\<lambda>n. True)) True)
        \<lparr>led_state := (replicate 10 (0, 0, 5))[4 := (0, 0, 0)]\<rparr>,
      \<lparr>pixels = (replicate 10 (0, 0, 5))[4 := (0, 0, 0)], last_button_a = 12, last_button_b = 1,
       sensitivity = 0.25, n_clock = 14, n_a = 2, n_b = 0, n_switch = 0,
       effects = [Fill (replicate 10 (0, 0, 5)), Pixel 4 (0, 0, 0),
                  Fill (replicate 10 (0, 0, 0)),
                  Fill ((replicate 10 (0, 0, 5))[4 := (0, 0, 0)])]\<rparr>)"
  by (simp add: run_simps)









lemma blink_check_frame:
  "last_button_a (snd (blink_check e p t c)) = last_button_a c
   \<and> last_button_b (snd (blink_check e p t c)) = last_button_b c
   \<and> sensitivity (snd (blink_check e p t c)) = sensitivity c
   \<and> n_a (snd (blink_check e p t c)) = n_a c
   \<and> n_b (snd (blink_check e p t c)) = n_b c
   \<and> n_clock c < n_clock (snd (blink_check e p t c))"
  by (simp add: blink_check_def blink_def monotonic_def set_pixels_def)

lemma press_a_or_b_idle:
  assumes "press_a_or_b e c = (False, c2)"
  shows "last_button_a c2 = last_button_a c \<and> last_button_b c2 = last_button_b c
     \<and> sensitivity c2 = sensitivity c
     \<and> n_a c \<le> n_a c2 \<and> n_b c \<le> n_b c2 \<and> n_clock c \<le> n_clock c2"
  using assms
  by (auto simp: press_a_or_b_def single_press_a_eq single_press_b_eq split: if_splits)

lemma press_a_or_b_accepted:
  assumes "press_a_or_b e c = (True, c2)"
  shows "sensitivity c2 = sensitivity c \<and>
     ((raw_a e (n_a c2 - 1) \<and> n_a c < n_a c2
         \<and> clock e (n_clock c2 - 2) - last_button_a c > sensitivity c
         \<and> last_button_a c2 = clock e (n_clock c2 - 1)
         \<and> last_button_b c2 = last_button_b c)
      \<or> (raw_b e (n_b c2 - 1) \<and> n_b c < n_b c2
         \<and> clock e (n_clock c2 - 2) - last_button_b c > sensitivity c
         \<and> last_button_b c2 = clock e (n_clock c2 - 1)
         \<and> last_button_a c2 = last_button_a c))"
  using assms
  by (auto simp: press_a_or_b_def single_press_a_eq single_press_b_eq split: if_splits)

lemma pause_loop_poll:
  "pause_loop fuel e p t c = Some c1 \<Longrightarrow>
   \<exists>c_poll c_after. press_a_or_b e c_poll = (True, c_after)
      \<and> c1 = set_pixels (led_state p) c_after
      \<and> last_button_a c_poll = last_button_a c \<and> last_button_b c_poll = last_button_b c
      \<and> sensitivity c_poll = sensitivity c
      \<and> n_a c \<le> n_a c_poll \<and> n_b c \<le> n_b c_poll \<and> n_clock c < n_clock c_poll"
proof (induction fuel arbitrary: t c)
  case 0
  then show ?case by simp
next
  case (Suc fuel)
  obtain t1 c2 where b: "blink_check e p t c = (t1, c2)" by (cases "blink_check e p t c")
  obtain pressed c3 where q: "press_a_or_b e c2 = (pressed, c3)" by (cases "press_a_or_b e c2")
  from b blink_check_frame [of e p t c] have c2:
    "last_button_a c2 = last_button_a c" "last_button_b c2 = last_button_b c"
    "sensitivity c2 = sensitivity c" "n_a c2 = n_a c" "n_b c2 = n_b c" "n_clock c < n_clock c2"
    by simp_all
  show ?case
  proof (cases pressed)
    case True
    with Suc.prems b q have "c1 = set_pixels (led_state p) c3" by simp
    with True q c2 show ?thesis by (intro exI [of _ c2] exI [of _ c3]) simp
  next
    case False
    with Suc.prems b q have run: "pause_loop fuel e p t1 c3 = Some c1" by simp
    from False q press_a_or_b_idle [of e c2 c3] have c3:
      "last_button_a c3 = last_button_a c2" "last_button_b c3 = last_button_b c2"
      "sensitivity c3 = sensitivity c2" "n_a c2 \<le> n_a c3" "n_b c2 \<le> n_b c3"
      "n_clock c2 \<le> n_clock c3" by simp_all
    from Suc.IH [OF run] obtain c_poll c_after where
      "press_a_or_b e c_poll = (True, c_after)" "c1 = set_pixels (led_state p) c_after"
      "last_button_a c_poll = last_button_a c3" "last_button_b c_poll = last_button_b c3"
      "sensitivity c_poll = sensitivity c3"
      "n_a c3 \<le> n_a c_poll" "n_b c3 \<le> n_b c_poll" "n_clock c3 < n_clock c_poll" by blast
    with c2 c3 show ?thesis by (intro exI [of _ c_poll] exI [of _ c_after]) simp
  qed
qed

lemma resumed_by_b_run:
  "interval 10 (world (\<lambda>n. n = 0) (\<lambda>n. n = 0)) 5 (0, 0, 5)
      (fst (started (world (\<lambda>n. n = 0) (\<lambda>n. n = 0)) True))
      (snd (started (world (\<lambda>n. n = 0) (\<lambda>n. n = 0)) True))
   = Some (Inr Completed,
      fst (started (world (\<lambda>n. n = 0) (\<lambda>n. n = 0)) True)
        \<lparr>led_state := (replicate 10 (0, 0, 5))[4 := (0, 0, 0)]\<rparr>,
      \<lparr>pixels = replicate 10 (0, 0, 0), last_button_a = 7, last_button_b = 13,
       sensitivity = 0.25, n_clock = 32, n_a = 10, n_b = 10, n_switch = 1,
       effects =
         [Fill (replicate 10 (0, 0, 5)), Pixel 4 (0, 0, 0),
          Fill (replicate 10 (0, 0, 0)), Fill ((replicate 10 (0, 0, 5))[4 := (0, 0, 0)]),
          Pixel 3 (0, 0, 0), Pixel 2 (0, 0, 0), Pixel 1 (0, 0, 0), Pixel 0 (0, 0, 0),
          Pixel 9 (0, 0, 0), Pixel 8 (0, 0, 0), Pixel 7 (0, 0, 0), Pixel 6 (0, 0, 0),
          Pixel 5 (0, 0, 0), Tone 1720 0.1]\<rparr>)"
  apply (simp add: run_simps)
  apply (simp add: numeral_eq_Suc)
  done





section \<open>Duration setters and getters\<close>

text \<open>
  C6. Each of the three duration setters raises its error exactly when the duration is
  zero or negative, and stores the duration otherwise.
\<close>

theorem setters_raise_iff_nonpositive:
  "(set_work_duration d p = Inl ValueError) = (d \<le> 0)
   \<and> (set_short_break d p = Inl ValueError) = (d \<le> 0)
   \<and> (set_long_break d p = Inl ValueError) = (d \<le> 0)
   \<and> (isl (set_work_duration d p)) = (d \<le> 0)
   \<and> (isl (set_short_break d p)) = (d \<le> 0)
   \<and> (isl (set_long_break d p)) = (d \<le> 0)"
  by (simp add: set_work_duration_def set_short_break_def set_long_break_def)

text \<open>
  C7. For a positive duration, each setter succeeds and the matching getter then
  returns the duration that was set: the stored value is the duration times 60 and the
  getter divides it by 60 again. In the real numbers of the model the round trip is exact.
\<close>

theorem getter_after_setter:
  "0 < d \<Longrightarrow>
     (\<exists>p1. set_work_duration d p = Inr p1 \<and> work_duration p1 = d)
   \<and> (\<exists>p1. set_short_break d p = Inr p1 \<and> short_break p1 = d)
   \<and> (\<exists>p1. set_long_break d p = Inr p1 \<and> long_break p1 = d)"
  by (simp add: set_work_duration_def set_short_break_def set_long_break_def
      work_duration_def short_break_def long_break_def)

theorem getter_after_setter_witness:
  "(\<exists>p1. set_work_duration 45 unset = Inr p1 \<and> work_duration p1 = 45)
   \<and> (\<exists>p1. set_short_break 45 unset = Inr p1 \<and> short_break p1 = 45)
   \<and> (\<exists>p1. set_long_break 45 unset = Inr p1 \<and> long_break p1 = 45)"
  using getter_after_setter [of 45 unset] by simp

section \<open>The debouncer, call by call\<close>

text \<open>
  C3, as stated, fails in one point: the timestamp stored on an accepted press is not
  the clock reading \<open>now\<close> that was compared with the window, but a second reading taken
  afterwards. On the board just after start-up, with button a held and a clock that
  moves between two readings, the press is accepted and the stored timestamp differs
  from the compared reading.
\<close>

theorem single_press_timestamp_counterexample:
  "raw_a (world (\<lambda>n. True) (\<lambda>n. False)) (n_a (express_init (world (\<lambda>n. True) (\<lambda>n. False))))
   \<and> clock (world (\<lambda>n. True) (\<lambda>n. False)) (n_clock (express_init (world (\<lambda>n. True) (\<lambda>n. False))))
       - last_button_a (express_init (world (\<lambda>n. True) (\<lambda>n. False)))
       > sensitivity (express_init (world (\<lambda>n. True) (\<lambda>n. False)))
   \<and> fst (single_press_a (world (\<lambda>n. True) (\<lambda>n. False)) (express_init (world (\<lambda>n. True) (\<lambda>n. False))))
   \<and> last_button_a (snd (single_press_a (world (\<lambda>n. True) (\<lambda>n. False)) (express_init (world (\<lambda>n. True) (\<lambda>n. False)))))
       \<noteq> clock (world (\<lambda>n. True) (\<lambda>n. False)) (n_clock (express_init (world (\<lambda>n. True) (\<lambda>n. False))))"
  by (simp add: single_press_a_eq express_init_eq world_def)

text \<open>
  C3, amended. For every call on either channel: if the raw button state is false the
  call returns false and changes no timestamp (and does not read the clock); if the raw
  state is true and the clock reading \<open>now\<close> exceeds the channel's timestamp by more than
  the sensitivity window, the call returns true and sets the timestamp to the next
  reading of the clock; otherwise it returns false and changes no timestamp. Hence a
  button held continuously is accepted at exactly those polls whose reading lies more
  than one window after the stored timestamp.
\<close>

theorem single_press_each_call:
  "single_press_a e c =
     (if \<not> raw_a e (n_a c) then (False, c\<lparr>n_a := Suc (n_a c)\<rparr>)
      else if clock e (n_clock c) - last_button_a c > sensitivity c
      then (True, c\<lparr>n_a := Suc (n_a c), n_clock := Suc (Suc (n_clock c)),
                     last_button_a := clock e (Suc (n_clock c))\<rparr>)
      else (False, c\<lparr>n_a := Suc (n_a c), n_clock := Suc (n_clock c)\<rparr>))
   \<and> single_press_b e c =
     (if \<not> raw_b e (n_b c) then (False, c\<lparr>n_b := Suc (n_b c)\<rparr>)
      else if clock e (n_clock c) - last_button_b c > sensitivity c
      then (True, c\<lparr>n_b := Suc (n_b c), n_clock := Suc (Suc (n_clock c)),
                     last_button_b := clock e (Suc (n_clock c))\<rparr>)
      else (False, c\<lparr>n_b := Suc (n_b c), n_clock := Suc (n_clock c)\<rparr>))
   \<and> sensitivity (express_init e) = 0.25"
  by (simp add: single_press_a_eq single_press_b_eq express_init_eq)

section \<open>An interval without presses, tick by tick\<close>



section \<open>The pause\<close>

text \<open>
  C9. Whenever \<^verbatim>\<open>pause\<close> returns: the snapshot \<open>led_state\<close> it holds is the display
  as it was on entry, taken once, and the display on return is exactly that snapshot,
  whatever blinking went on in between. The return happened at a poll of the run at
  which a press was accepted: the timestamps and the sensitivity at that poll were
  still those of the entry, and either button a was held at the last read of a and
  the reading compared there exceeds the entry timestamp of a by more than the
  sensitivity, or the same holds of button b. The accepted channel's timestamp is
  the reading taken next; the other channel's timestamp is unchanged.
\<close>

theorem pause_restores_display:
  assumes "pause fuel e p c = Some (p1, c1)"
  shows "p1 = p\<lparr>led_state := pixels c\<rparr> \<and> pixels c1 = pixels c \<and>
     (\<exists>c_poll c_after. press_a_or_b e c_poll = (True, c_after) \<and>
        c1 = set_pixels (pixels c) c_after
        \<and> last_button_a c_poll = last_button_a c \<and> last_button_b c_poll = last_button_b c
        \<and> sensitivity c_poll = sensitivity c
        \<and> n_a c \<le> n_a c_poll \<and> n_b c \<le> n_b c_poll \<and> n_clock c < n_clock c_poll)
     \<and> sensitivity c1 = sensitivity c
     \<and> ((raw_a e (n_a c1 - 1) \<and> n_a c < n_a c1
           \<and> clock e (n_clock c1 - 2) - last_button_a c > sensitivity c
           \<and> last_button_a c1 = clock e (n_clock c1 - 1)
           \<and> last_button_b c1 = last_button_b c)
        \<or> (raw_b e (n_b c1 - 1) \<and> n_b c < n_b c1
           \<and> clock e (n_clock c1 - 2) - last_button_b c > sensitivity c
           \<and> last_button_b c1 = clock e (n_clock c1 - 1)
           \<and> last_button_a c1 = last_button_a c))"
proof -
  define c0 where "c0 = c\<lparr>n_clock := Suc (n_clock c)\<rparr>"
  from assms have p1: "p1 = p\<lparr>led_state := pixels c\<rparr>"
    and run: "pause_loop fuel e p1 (clock e (n_clock c)) c0 = Some c1"
    by (auto simp: pause_eq c0_def)
  from pause_loop_poll [OF run] obtain c_poll c_after where
    acc: "press_a_or_b e c_poll = (True, c_after)"
    and c1: "c1 = set_pixels (led_state p1) c_after"
    and same: "last_button_a c_poll = last_button_a c" "last_button_b c_poll = last_button_b c"
      "sensitivity c_poll = sensitivity c"
    and later: "n_a c \<le> n_a c_poll" "n_b c \<le> n_b c_poll" "n_clock c < n_clock c_poll"
    by (auto simp: c0_def)
  from c1 p1 have c1': "c1 = set_pixels (pixels c) c_after" by simp
  have poll: "\<exists>c_poll c_after. press_a_or_b e c_poll = (True, c_after) \<and>
        c1 = set_pixels (pixels c) c_after
        \<and> last_button_a c_poll = last_button_a c \<and> last_button_b c_poll = last_button_b c
        \<and> sensitivity c_poll = sensitivity c
        \<and> n_a c \<le> n_a c_poll \<and> n_b c \<le> n_b c_poll \<and> n_clock c < n_clock c_poll"
    using acc c1' same later by blast
  have fields: "sensitivity c1 = sensitivity c_after" "n_a c1 = n_a c_after"
    "n_b c1 = n_b c_after" "n_clock c1 = n_clock c_after"
    "last_button_a c1 = last_button_a c_after" "last_button_b c1 = last_button_b c_after"
    "pixels c1 = pixels c"
    by (simp_all add: c1' set_pixels_def)
  from press_a_or_b_accepted [OF acc] same later fields
  have cond: "sensitivity c1 = sensitivity c
     \<and> ((raw_a e (n_a c1 - 1) \<and> n_a c < n_a c1
           \<and> clock e (n_clock c1 - 2) - last_button_a c > sensitivity c
           \<and> last_button_a c1 = clock e (n_clock c1 - 1)
           \<and> last_button_b c1 = last_button_b c)
        \<or> (raw_b e (n_b c1 - 1) \<and> n_b c < n_b c1
           \<and> clock e (n_clock c1 - 2) - last_button_b c > sensitivity c
           \<and> last_button_b c1 = clock e (n_clock c1 - 1)
           \<and> last_button_a c1 = last_button_a c))"
    by auto
  from p1 fields(7) poll cond show ?thesis by blast
qed

text \<open>
  A pause on the blue board that blinks twice (off, then blue again) before button a is
  accepted on the second pass, at the reading 8 against the entry timestamp 0.
\<close>

theorem pause_restores_display_witness:
  "\<exists>p1 c1.
     pause (Suc (Suc 0)) (world (\<lambda>n. 1 \<le> n) (\<lambda>n. False))
       (fst (started (world (\<lambda>n. 1 \<le> n) (\<lambda>n. False)) True))
       (blue_board (world (\<lambda>n. 1 \<le> n) (\<lambda>n. False))) = Some (p1, c1)
     \<and> led_state p1 = replicate 10 (0, 0, 5) \<and> pixels c1 = replicate 10 (0, 0, 5)
     \<and> length (effects c1) = 4
     \<and> raw_a (world (\<lambda>n. 1 \<le> n) (\<lambda>n. False)) (n_a c1 - 1)
     \<and> clock (world (\<lambda>n. 1 \<le> n) (\<lambda>n. False)) (n_clock c1 - 2)
           - last_button_a (blue_board (world (\<lambda>n. 1 \<le> n) (\<lambda>n. False)))
         > sensitivity (blue_board (world (\<lambda>n. 1 \<le> n) (\<lambda>n. False)))
     \<and> last_button_a c1 = clock (world (\<lambda>n. 1 \<le> n) (\<lambda>n. False)) (n_clock c1 - 1)"
  using pause_restores_display [OF pause_run] pause_run
  by (simp add: blue_board_def set_pixels_def started_eq world_def)

text \<open>
  C4. When button a is accepted in a pass of the interval loop and the pause returns,
  \<open>led_start\<close> is moved forward by the time between the reading taken just before the
  pause (\<open>pre_pause\<close>) and the reading taken just after it. The time left until the
  next pixel goes off, computed at the moment of resuming, therefore equals the time
  that was left at \<open>pre_pause\<close>; the pixel index is untouched.
\<close>

theorem pause_preserves_remaining:
  assumes "fst (single_press_a e c)"
    and "pause_check fuel e p v c = Some (v1, p1, c1)"
  shows "led_start v1 =
           led_start v + (clock e (n_clock c1 - 1) - clock e (Suc (Suc (n_clock c))))
     \<and> led_duration - (clock e (n_clock c1 - 1) - led_start v1)
         = led_duration - (clock e (Suc (Suc (n_clock c))) - led_start v)
     \<and> led_current v1 = led_current v
     \<and> (\<exists>c2. pause fuel e p (snd (monotonic e (snd (single_press_a e c)))) = Some (p1, c2)
           \<and> n_clock c1 = Suc (n_clock c2))"
  using assms
  by (auto simp: pause_check_def single_press_a_eq monotonic_def Let_def
      split: if_splits option.splits prod.splits)

text \<open>
  A pause entered 0.3 s into a window of 1 s (\<open>led_start = 4.7\<close>, \<open>pre_pause = 5\<close>) and
  left at the reading 11: \<open>led_start\<close> becomes 10.7, and 0.7 s are still left.
\<close>

theorem pause_preserves_remaining_witness:
  "\<exists>v1 p1 c1.
     pause_check (Suc 0) (world (\<lambda>n. True) (\<lambda>n. False))
       (fst (started (world (\<lambda>n. True) (\<lambda>n. False)) True))
       \<lparr>led_start = 4.7, led_current = 4\<rparr>
       (blue_board (world (\<lambda>n. True) (\<lambda>n. False))) = Some (v1, p1, c1)
     \<and> clock (world (\<lambda>n. True) (\<lambda>n. False)) (n_clock c1 - 1) = 11
     \<and> led_start v1 = 4.7 + (11 - 5)
     \<and> 1 - (11 - led_start v1) = 1 - (5 - 4.7)"
proof -
  have press: "fst (single_press_a (world (\<lambda>n. True) (\<lambda>n. False))
      (blue_board (world (\<lambda>n. True) (\<lambda>n. False))))"
    by (simp add: single_press_a_eq started_eq world_def blue_board_def set_pixels_def)
  show ?thesis
    using pause_preserves_remaining [OF press pause_check_run, of 1] pause_check_run
    by (simp add: world_def blue_board_def set_pixels_def started_eq)
qed

section \<open>The session\<close>

text \<open>
  C1, as stated, fails: \<^verbatim>\<open>work_session\<close> does not look at how an interval ended. With
  the schedule \<open>w, sb\<close> and button b pressed during the work interval, the work interval
  is cancelled and the short break that follows it is still run, to completion.
\<close>

theorem session_goes_on_after_cancel_counterexample:
  "map_option fst
     (work_session 10 (world (\<lambda>n. False) (\<lambda>n. n = 0)) (two_entries (world (\<lambda>n. False) (\<lambda>n. n = 0)))
        (snd (started (world (\<lambda>n. False) (\<lambda>n. n = 0)) True)))
   = Some [Cancelled, Completed]"
  by (simp add: session_run)

text \<open>
  C1, amended. A cancelled interval ends only itself: after an interval that returned
  as cancelled, \<^verbatim>\<open>work_session\<close> goes on with the remaining entries from the state
  the cancelled interval left; and whenever a session returns without an error, every
  entry of the schedule has been run, whatever the outcomes were.
\<close>

theorem session_runs_every_entry:
  "(work_session fuel e p c = Some (outs, None, p1, c1) \<longrightarrow> length outs = length (schedule p))
   \<and> (intervals p period = Some (attr, color) \<longrightarrow> getattr p attr = Inr (Num duration) \<longrightarrow>
        interval fuel e duration color p c = Some (Inr Cancelled, p2, c2) \<longrightarrow>
        run_schedule fuel e (period # rest) p c =
          map_option (\<lambda>(outs, r). (Cancelled # outs, r)) (run_schedule fuel e rest p2 c2))"
  by (auto simp: work_session_def run_schedule_length interval_call_def split: option.splits)

theorem session_runs_every_entry_witness:
  "\<exists>p1 c1.
     work_session 10 (world (\<lambda>n. False) (\<lambda>n. n = 0)) (two_entries (world (\<lambda>n. False) (\<lambda>n. n = 0)))
       (snd (started (world (\<lambda>n. False) (\<lambda>n. n = 0)) True))
     = Some ([Cancelled, Completed], None, p1, c1)
     \<and> length [Cancelled, Completed]
         = length (schedule (two_entries (world (\<lambda>n. False) (\<lambda>n. n = 0))))"
  using session_runs_every_entry [of 10 "world (\<lambda>n. False) (\<lambda>n. n = 0)"
      "two_entries (world (\<lambda>n. False) (\<lambda>n. n = 0))"
      "snd (started (world (\<lambda>n. False) (\<lambda>n. n = 0)) True)" "[Cancelled, Completed]"]
    session_run
  by simp

section \<open>Cancelling\<close>

text \<open>
  C8, as stated, fails for a press of button b that is accepted inside the pause: there
  it only ends the pause. In this run button a is accepted in the first pass and the
  pause is entered; inside the pause button b is held and accepted (its timestamp goes
  from 1 to 13), the snapshot is restored, and the interval goes on to switch off the
  remaining pixels and completes with the tone. No red flash is among its effects.
\<close>

theorem press_b_in_pause_counterexample:
  "last_button_b (snd (started (world (\<lambda>n. n = 0) (\<lambda>n. n = 0)) True)) = 1
   \<and> interval 10 (world (\<lambda>n. n = 0) (\<lambda>n. n = 0)) 5 (0, 0, 5)
      (fst (started (world (\<lambda>n. n = 0) (\<lambda>n. n = 0)) True))
      (snd (started (world (\<lambda>n. n = 0) (\<lambda>n. n = 0)) True))
   = Some (Inr Completed,
      fst (started (world (\<lambda>n. n = 0) (\<lambda>n. n = 0)) True)
        \<lparr>led_state := (replicate 10 (0, 0, 5))[4 := (0, 0, 0)]\<rparr>,
      \<lparr>pixels = replicate 10 (0, 0, 0), last_button_a = 7, last_button_b = 13,
       sensitivity = 0.25, n_clock = 32, n_a = 10, n_b = 10, n_switch = 1,
       effects =
         [Fill (replicate 10 (0, 0, 5)), Pixel 4 (0, 0, 0),
          Fill (replicate 10 (0, 0, 0)), Fill ((replicate 10 (0, 0, 5))[4 := (0, 0, 0)]),
          Pixel 3 (0, 0, 0), Pixel 2 (0, 0, 0), Pixel 1 (0, 0, 0), Pixel 0 (0, 0, 0),
          Pixel 9 (0, 0, 0), Pixel 8 (0, 0, 0), Pixel 7 (0, 0, 0), Pixel 6 (0, 0, 0),
          Pixel 5 (0, 0, 0), Tone 1720 0.1]\<rparr>)"
  by (simp add: resumed_by_b_run) (simp add: started_eq world_def)

text \<open>
  C8, amended to the press accepted at the cancel check of the interval loop. In a pass
  that reaches its cancel check with an accepted press of button b, the loop returns as
  cancelled and the effects of the pass end with the two red flashes. And whenever a
  whole interval (on the ring of ten pixels) returns as cancelled: its effects are the
  initial fill, then effects among which there is no tone and no switching-off of the
  stop pixel, then the two red flashes as the last effects; the switch has not been
  read.
\<close>

theorem cancel_flashes_without_tone:
  "(countdown e d p v c = (Loop, v0, c0) \<longrightarrow> pause_check fuel e p v0 c0 = Some (v2, p2, c2) \<longrightarrow>
      fst (single_press_b e c2) \<longrightarrow>
      (\<exists>c3. interval_loop (Suc fuel) e d p v c = Some (Inr Cancelled, p2, c3)
         \<and> effects c3 = effects c2 @ double_red_flash))
   \<and> (interval fuel e duration color q b = Some (Inr Cancelled, q1, b1) \<longrightarrow>
        0 \<le> start_led q \<longrightarrow> start_led q < 10 \<longrightarrow>
        n_switch b1 = n_switch b \<and>
        (\<exists>m. list_all (quiet (stop_led q)) m \<and>
           effects b1 = effects b @ Fill (replicate 10 color) # m @ double_red_flash))"
proof (rule conjI)
  show "countdown e d p v c = (Loop, v0, c0) \<longrightarrow> pause_check fuel e p v0 c0 = Some (v2, p2, c2) \<longrightarrow>
      fst (single_press_b e c2) \<longrightarrow>
      (\<exists>c3. interval_loop (Suc fuel) e d p v c = Some (Inr Cancelled, p2, c3)
         \<and> effects c3 = effects c2 @ double_red_flash)"
  proof (intro impI)
    assume cd: "countdown e d p v c = (Loop, v0, c0)"
      and pc: "pause_check fuel e p v0 c0 = Some (v2, p2, c2)"
      and press: "fst (single_press_b e c2)"
    from press have "cancel_check e c2 =
        (Done Cancelled, (snd (single_press_b e c2))\<lparr>pixels := replicate 10 (0, 0, 0),
           effects := effects c2 @ double_red_flash\<rparr>)"
      by (simp add: cancel_check_eq)
    with cancelled_pass [OF cd pc]
    show "\<exists>c3. interval_loop (Suc fuel) e d p v c = Some (Inr Cancelled, p2, c3)
           \<and> effects c3 = effects c2 @ double_red_flash"
      by simp
  qed
next
  show "interval fuel e duration color q b = Some (Inr Cancelled, q1, b1) \<longrightarrow>
        0 \<le> start_led q \<longrightarrow> start_led q < 10 \<longrightarrow>
        n_switch b1 = n_switch b \<and>
        (\<exists>m. list_all (quiet (stop_led q)) m \<and>
           effects b1 = effects b @ Fill (replicate 10 color) # m @ double_red_flash)"
  proof (intro impI)
    assume run: "interval fuel e duration color q b = Some (Inr Cancelled, q1, b1)"
      and ring: "0 \<le> start_led q" "start_led q < 10"
    define b0 where "b0 = snd (monotonic e (set_pixels (replicate 10 color) b))"
    define w where "w = \<lparr>led_start = clock e (n_clock b), led_current = start_led q\<rparr>"
    from run have loop: "interval_loop fuel e (duration / 10) q w b0 = Some (Inr Cancelled, q1, b1)"
      by (simp add: interval_def b0_def w_def monotonic_def set_pixels_def Let_def)
    have b0: "n_switch b0 = n_switch b" "effects b0 = effects b @ [Fill (replicate 10 color)]"
      by (simp_all add: b0_def monotonic_def set_pixels_def)
    from ring have "0 \<le> led_current w" "led_current w < 10" by (simp_all add: w_def)
    from interval_loop_cancelled [OF loop this] b0
    show "n_switch b1 = n_switch b \<and>
          (\<exists>m. list_all (quiet (stop_led q)) m \<and>
             effects b1 = effects b @ Fill (replicate 10 color) # m @ double_red_flash)"
      by auto
  qed
qed

text \<open>
  An interval of 25 s cancelled in its third pass, after the first pixel went off.
\<close>

theorem cancel_flashes_without_tone_witness:
  "\<exists>q1 b1.
     interval 3 (world (\<lambda>n. False) (\<lambda>n. n = 2)) 25 (0, 0, 5)
       (fst (started (world (\<lambda>n. False) (\<lambda>n. n = 2)) True))
       (snd (started (world (\<lambda>n. False) (\<lambda>n. n = 2)) True))
     = Some (Inr Cancelled, q1, b1)
     \<and> n_switch b1 = 0
     \<and> (\<exists>m. list_all (quiet 5) m \<and>
           effects b1 = Fill (replicate 10 (0, 0, 5)) # m @ double_red_flash)"
proof -
  note part = cancel_flashes_without_tone [where fuel = 3
      and e = "world (\<lambda>n. False) (\<lambda>n. n = 2)" and duration = 25 and color = "(0, 0, 5)"
      and q = "fst (started (world (\<lambda>n. False) (\<lambda>n. n = 2)) True)"
      and b = "snd (started (world (\<lambda>n. False) (\<lambda>n. n = 2)) True)",
      THEN conjunct2, rule_format, OF cancel_run]
  have ring: "0 \<le> start_led (fst (started (world (\<lambda>n. False) (\<lambda>n. n = 2)) True))"
    "start_led (fst (started (world (\<lambda>n. False) (\<lambda>n. n = 2)) True)) < 10"
    by (simp_all add: started_eq)
  from part [OF ring] cancel_run show ?thesis
    by (simp add: started_eq)
qed

section \<open>What one pass of the interval loop handles\<close>

text \<open>
  C5, as stated, fails: the three parts of a pass are three \<^verbatim>\<open>if\<close> statements in
  sequence, not alternatives. With both buttons held and a pixel due, a single pass
  switches pixel 4 off and moves the index to 3 (countdown), enters the pause and
  leaves it again (the fills with the dark display and with the snapshot, and
  \<open>led_start\<close> moved from 4 to 10), and then cancels (the two red flashes).
\<close>

theorem three_parts_in_one_pass_counterexample:
  "interval_body 5 (world (\<lambda>n. True) (\<lambda>n. True)) 0.5
      (fst (started (world (\<lambda>n. True) (\<lambda>n. True)) True))
      \<lparr>led_start = 2, led_current = 4\<rparr>
      (blue_board (world (\<lambda>n. True) (\<lambda>n. True)))
   = Some (Done Cancelled, \<lparr>led_start = 10, led_current = 3\<rparr>,
      fst (started (world (\<lambda>n. True) (\<lambda>n. True)) True)
        \<lparr>led_state := (replicate 10 (0, 0, 5))[4 := (0, 0, 0)]\<rparr>,
      \<lparr>pixels = replicate 10 (0, 0, 0), last_button_a = 12, last_button_b = 15,
       sensitivity = 0.25, n_clock = 16, n_a = 2, n_b = 1, n_switch = 0,
       effects = [Fill (replicate 10 (0, 0, 5)), Pixel 4 (0, 0, 0),
                  Fill (replicate 10 (0, 0, 0)),
                  Fill ((replicate 10 (0, 0, 5))[4 := (0, 0, 0)])] @ double_red_flash\<rparr>)"
  by (rule three_in_one_pass)

text \<open>
  C5, amended. A pass runs its parts in the order countdown, pause check, cancel
  check. When the countdown completes the interval, the pass returns at once: no
  button is polled, so neither a pause nor a cancel is handled. In every other pass
  whose pause check returns, the cancel check runs as well, on the state the countdown
  and the pause check left, so a countdown step, a pause and a cancel can all be
  handled in one pass. An accepted press of button b at the cancel check ends the loop
  in that very pass as cancelled, so that no countdown step follows it.
\<close>

theorem one_pass_order:
  "(fst (countdown e d p v c) = Done Completed \<longrightarrow>
      interval_body fuel e d p v c =
        Some (Done Completed, fst (snd (countdown e d p v c)), p, snd (snd (countdown e d p v c)))
      \<and> n_a (snd (snd (countdown e d p v c))) = n_a c
      \<and> n_b (snd (snd (countdown e d p v c))) = n_b c)
   \<and> (countdown e d p v c = (Loop, v0, c0) \<longrightarrow> pause_check fuel e p v0 c0 = Some (v2, p2, c2) \<longrightarrow>
        interval_body fuel e d p v c =
          Some (fst (cancel_check e c2), v2, p2, snd (cancel_check e c2))
        \<and> (fst (single_press_b e c2) \<longrightarrow>
             interval_loop (Suc fuel) e d p v c = Some (Inr Cancelled, p2, snd (cancel_check e c2))))"
proof (rule conjI)
  show "fst (countdown e d p v c) = Done Completed \<longrightarrow>
      interval_body fuel e d p v c =
        Some (Done Completed, fst (snd (countdown e d p v c)), p, snd (snd (countdown e d p v c)))
      \<and> n_a (snd (snd (countdown e d p v c))) = n_a c
      \<and> n_b (snd (snd (countdown e d p v c))) = n_b c"
    using completed_pass [of e d p v c fuel] countdown_no_poll [of e d p v c] by simp
next
  show "countdown e d p v c = (Loop, v0, c0) \<longrightarrow> pause_check fuel e p v0 c0 = Some (v2, p2, c2) \<longrightarrow>
        interval_body fuel e d p v c =
          Some (fst (cancel_check e c2), v2, p2, snd (cancel_check e c2))
        \<and> (fst (single_press_b e c2) \<longrightarrow>
             interval_loop (Suc fuel) e d p v c = Some (Inr Cancelled, p2, snd (cancel_check e c2)))"
  proof (intro impI)
    assume cd: "countdown e d p v c = (Loop, v0, c0)"
      and pc: "pause_check fuel e p v0 c0 = Some (v2, p2, c2)"
    note body = cancelled_pass [OF cd pc]
    have "fst (single_press_b e c2) \<longrightarrow>
        interval_loop (Suc fuel) e d p v c = Some (Inr Cancelled, p2, snd (cancel_check e c2))"
      using body by (simp add: cancel_check_eq)
    with body show "interval_body fuel e d p v c =
          Some (fst (cancel_check e c2), v2, p2, snd (cancel_check e c2))
        \<and> (fst (single_press_b e c2) \<longrightarrow>
             interval_loop (Suc fuel) e d p v c = Some (Inr Cancelled, p2, snd (cancel_check e c2)))"
      by simp
  qed
qed

text \<open>
  A completing pass, and the pass with all three parts of the counterexample above.
\<close>

theorem one_pass_order_witness:
  "interval_body 0 (world (\<lambda>n. False) (\<lambda>n. False)) 1
       (fst (started (world (\<lambda>n. False) (\<lambda>n. False)) True))
       \<lparr>led_start = 0, led_current = 5\<rparr>
       (snd (started (world (\<lambda>n. False) (\<lambda>n. False)) True))
     = Some (Done Completed, \<lparr>led_start = 0, led_current = 5\<rparr>,
         fst (started (world (\<lambda>n. False) (\<lambda>n. False)) True),
         \<lparr>pixels = replicate 10 (0, 0, 0), last_button_a = 0, last_button_b = 1,
          sensitivity = 0.25, n_clock = 4, n_a = 0, n_b = 0, n_switch = 1,
          effects = [Pixel 5 (0, 0, 0), Tone 1720 0.1]\<rparr>)
   \<and> interval_loop (Suc 5) (world (\<lambda>n. True) (\<lambda>n. True)) 0.5
       (fst (started (world (\<lambda>n. True) (\<lambda>n. True)) True))
       \<lparr>led_start = 2, led_current = 4\<rparr>
       (blue_board (world (\<lambda>n. True) (\<lambda>n. True)))
     = Some (Inr Cancelled,
         fst (started (world (\<lambda>n. True) (\<lambda>n. True)) True)
           \<lparr>led_state := (replicate 10 (0, 0, 5))[4 := (0, 0, 0)]\<rparr>,
         \<lparr>pixels = replicate 10 (0, 0, 0), last_button_a = 12, last_button_b = 15,
          sensitivity = 0.25, n_clock = 16, n_a = 2, n_b = 1, n_switch = 0,
          effects = [Fill (replicate 10 (0, 0, 5)), Pixel 4 (0, 0, 0),
                     Fill (replicate 10 (0, 0, 0)),
                     Fill ((replicate 10 (0, 0, 5))[4 := (0, 0, 0)])] @ double_red_flash\<rparr>)"
proof (rule conjI)
  have completes: "countdown (world (\<lambda>n. False) (\<lambda>n. False)) 1
       (fst (started (world (\<lambda>n. False) (\<lambda>n. False)) True))
       \<lparr>led_start = 0, led_current = 5\<rparr>
       (snd (started (world (\<lambda>n. False) (\<lambda>n. False)) True))
     = (Done Completed, \<lparr>led_start = 0, led_current = 5\<rparr>,
         \<lparr>pixels = replicate 10 (0, 0, 0), last_button_a = 0, last_button_b = 1,
          sensitivity = 0.25, n_clock = 4, n_a = 0, n_b = 0, n_switch = 1,
          effects = [Pixel 5 (0, 0, 0), Tone 1720 0.1]\<rparr>)"
    by (simp add: run_simps) (simp add: numeral_eq_Suc)
  from one_pass_order [where fuel = 0 and e = "world (\<lambda>n. False) (\<lambda>n. False)" and d = 1
      and p = "fst (started (world (\<lambda>n. False) (\<lambda>n. False)) True)"
      and v = "\<lparr>led_start = 0, led_current = 5\<rparr>"
      and c = "snd (started (world (\<lambda>n. False) (\<lambda>n. False)) True)", THEN conjunct1] completes
  show "interval_body 0 (world (\<lambda>n. False) (\<lambda>n. False)) 1
       (fst (started (world (\<lambda>n. False) (\<lambda>n. False)) True))
       \<lparr>led_start = 0, led_current = 5\<rparr>
       (snd (started (world (\<lambda>n. False) (\<lambda>n. False)) True))
     = Some (Done Completed, \<lparr>led_start = 0, led_current = 5\<rparr>,
         fst (started (world (\<lambda>n. False) (\<lambda>n. False)) True),
         \<lparr>pixels = replicate 10 (0, 0, 0), last_button_a = 0, last_button_b = 1,
          sensitivity = 0.25, n_clock = 4, n_a = 0, n_b = 0, n_switch = 1,
          effects = [Pixel 5 (0, 0, 0), Tone 1720 0.1]\<rparr>)"
    by simp
next
  have press: "fst (single_press_b (world (\<lambda>n. True) (\<lambda>n. True))
      \<lparr>pixels = (replicate 10 (0, 0, 5))[4 := (0, 0, 0)], last_button_a = 12, last_button_b = 1,
       sensitivity = 0.25, n_clock = 14, n_a = 2, n_b = 0, n_switch = 0,
       effects = [Fill (replicate 10 (0, 0, 5)), Pixel 4 (0, 0, 0),
                  Fill (replicate 10 (0, 0, 0)),
                  Fill ((replicate 10 (0, 0, 5))[4 := (0, 0, 0)])]\<rparr>)"
    by (simp add: single_press_b_eq world_def)
  from one_pass_order [THEN conjunct2, rule_format, OF three_in_one_countdown three_in_one_pause,
      THEN conjunct2, rule_format, OF press]
  show "interval_loop (Suc 5) (world (\<lambda>n. True) (\<lambda>n. True)) 0.5
       (fst (started (world (\<lambda>n. True) (\<lambda>n. True)) True))
       \<lparr>led_start = 2, led_current = 4\<rparr>
       (blue_board (world (\<lambda>n. True) (\<lambda>n. True)))
     = Some (Inr Cancelled,
         fst (started (world (\<lambda>n. True) (\<lambda>n. True)) True)
           \<lparr>led_state := (replicate 10 (0, 0, 5))[4 := (0, 0, 0)]\<rparr>,
         \<lparr>pixels = replicate 10 (0, 0, 0), last_button_a = 12, last_button_b = 15,
          sensitivity = 0.25, n_clock = 16, n_a = 2, n_b = 1, n_switch = 0,
          effects = [Fill (replicate 10 (0, 0, 5)), Pixel 4 (0, 0, 0),
                     Fill (replicate 10 (0, 0, 0)),
                     Fill ((replicate 10 (0, 0, 5))[4 := (0, 0, 0)])] @ double_red_flash\<rparr>)"
    by (simp add: cancel_check_eq single_press_b_eq world_def)
qed

section \<open>An uninterrupted interval\<close>



end
